theory Spec2Isabelle
  imports Main
begin

section \<open>CommandContext (src/src/context.ts)\<close>

subsection \<open>Option conversion\<close>

text \<open>
  A JavaScript number: \<^verbatim>\<open>NaN\<close>, an infinity, or a finite double, given by an integer
  mantissa \<open>m\<close> and a binary exponent \<open>e\<close> as the value \<open>m\<close> times 2 to the \<open>e\<close>; a zero
  of either sign has mantissa 0. \<^verbatim>\<open>0\<close> and \<^verbatim>\<open>NaN\<close> are falsy.
\<close>

datatype number = Finite int int | NaN | PosInfinity | NegInfinity

fun truthy_number :: "number \<Rightarrow> bool" where
  "truthy_number (Finite m e) = (m \<noteq> 0)"
| "truthy_number NaN = False"
| "truthy_number PosInfinity = True"
| "truthy_number NegInfinity = True"

text \<open>
  The primitive values an option carries (\<^verbatim>\<open>string | number | boolean\<close> of
  \<^verbatim>\<open>ConvertedOption\<close>, line 14).
\<close>

datatype prim = PString string | PNumber number | PBoolean bool

text \<open>
  \<^verbatim>\<open>CommandOption\<close> as \<^verbatim>\<open>convertOptions\<close> reads it: \<^verbatim>\<open>name\<close>, the optional
  \<^verbatim>\<open>value\<close> and the optional \<^verbatim>\<open>options\<close> (\<open>None\<close> is a field that is missing).
\<close>

datatype CommandOption =
  CommandOption (opt_name: string) (opt_value: "prim option")
    (opt_options: "CommandOption list option")

text \<open>
  A converted record is a JavaScript object created by the literal \<^verbatim>\<open>{}\<close>: its prototype
  (\<open>None\<close> is \<^verbatim>\<open>Object.prototype\<close>, which the literal gives it) and its own properties, a
  map from keys to values. The order in which JavaScript enumerates the keys is not
  represented.
\<close>

datatype ConvertedOption =
  CObject "ConvertedOption option" "string \<Rightarrow> ConvertedOption option"
| CString string
| CNumber number
| CBoolean bool

fun prototype :: "ConvertedOption \<Rightarrow> ConvertedOption option" where
  "prototype (CObject proto props) = proto"
| "prototype (CString s) = None"
| "prototype (CNumber n) = None"
| "prototype (CBoolean b) = None"

fun own_props :: "ConvertedOption \<Rightarrow> string \<Rightarrow> ConvertedOption option" where
  "own_props (CObject proto props) = props"
| "own_props (CString s) = Map.empty"
| "own_props (CNumber n) = Map.empty"
| "own_props (CBoolean b) = Map.empty"

text \<open>JavaScript truthiness of a primitive: \<^verbatim>\<open>''\<close>, \<^verbatim>\<open>0\<close>, \<^verbatim>\<open>NaN\<close> and \<^verbatim>\<open>false\<close> are falsy.\<close>

fun truthy :: "prim \<Rightarrow> bool" where
  "truthy (PString s) = (s \<noteq> [])"
| "truthy (PNumber n) = truthy_number n"
| "truthy (PBoolean b) = b"

fun converted :: "prim \<Rightarrow> ConvertedOption" where
  "converted (PString s) = CString s"
| "converted (PNumber n) = CNumber n"
| "converted (PBoolean b) = CBoolean b"

text \<open>
  The \<^verbatim>\<open>for\<close> loop of \<^verbatim>\<open>convertOptions\<close> (lines 230-233), with the prototype and the own
  properties of \<^verbatim>\<open>convertedOptions\<close> so far as accumulators. An array is truthy even when
  empty, so \<^verbatim>\<open>option.options\<close> is tested for being there; \<^verbatim>\<open>option.value\<close> is tested
  for truthiness. The assignment \<^verbatim>\<open>convertedOptions[option.name] = v\<close> writes an own
  property, except under the name \<^verbatim>\<open>__proto__\<close>: that assignment runs the setter inherited
  from \<^verbatim>\<open>Object.prototype\<close>, which makes an object \<^verbatim>\<open>v\<close> the prototype of
  \<^verbatim>\<open>convertedOptions\<close>, ignores a primitive \<^verbatim>\<open>v\<close>, and writes no own property.
\<close>

fun convertOptions_loop ::
  "CommandOption list \<Rightarrow> ConvertedOption option \<Rightarrow> (string \<Rightarrow> ConvertedOption option) \<Rightarrow>
   ConvertedOption"
where
  "convertOptions_loop [] proto props = CObject proto props"
| "convertOptions_loop (CommandOption n v (Some subs) # rest) proto props =
     (if n = ''__proto__''
      then convertOptions_loop rest (Some (convertOptions_loop subs None Map.empty)) props
      else convertOptions_loop rest proto
             (props(n \<mapsto> convertOptions_loop subs None Map.empty)))"
| "convertOptions_loop (CommandOption n (Some v) None # rest) proto props =
     (if truthy v
      then (if n = ''__proto__''
            then convertOptions_loop rest proto props
            else convertOptions_loop rest proto (props(n \<mapsto> converted v)))
      else convertOptions_loop rest proto props)"
| "convertOptions_loop (CommandOption n None None # rest) proto props =
     convertOptions_loop rest proto props"

definition convertOptions :: "CommandOption list \<Rightarrow> ConvertedOption" where
  "convertOptions opts = convertOptions_loop opts None Map.empty"

text \<open>
  An option that reaches an assignment: it has sub-options, or it has none and its value
  is truthy. \<open>entry\<close> is the value it assigns.
\<close>

fun effective :: "CommandOption \<Rightarrow> bool" where
  "effective (CommandOption n v (Some subs)) = True"
| "effective (CommandOption n (Some v) None) = truthy v"
| "effective (CommandOption n None None) = False"

fun entry :: "CommandOption \<Rightarrow> ConvertedOption" where
  "entry (CommandOption n v (Some subs)) = convertOptions subs"
| "entry (CommandOption n (Some v) None) = converted v"
| "entry (CommandOption n None None) = CObject None Map.empty"

text \<open>The last element of a list that satisfies a test, if there is one.\<close>

definition last_where :: "('a \<Rightarrow> bool) \<Rightarrow> 'a list \<Rightarrow> 'a option" where
  "last_where P xs = (case filter P xs of [] \<Rightarrow> None | y # ys \<Rightarrow> Some (last (y # ys)))"

text \<open>
  The last option named \<open>k\<close> that reaches an assignment, and the last option named
  \<^verbatim>\<open>__proto__\<close> that has sub-options.
\<close>

definition last_effective :: "CommandOption list \<Rightarrow> string \<Rightarrow> CommandOption option" where
  "last_effective opts k = last_where (\<lambda>opt. opt_name opt = k \<and> effective opt) opts"

definition last_prototype :: "CommandOption list \<Rightarrow> CommandOption option" where
  "last_prototype opts =
     last_where (\<lambda>opt. opt_name opt = ''__proto__'' \<and> opt_options opt \<noteq> None) opts"

subsection \<open>The context and its collaborators\<close>

text \<open>
  What a method throws: \<^verbatim>\<open>new Error(message)\<close>, or the \<^verbatim>\<open>TypeError\<close> of reading a
  property of \<^verbatim>\<open>null\<close>.
\<close>

datatype error = Error string | TypeError

text \<open>
  What \<^verbatim>\<open>context.ts\<close> imports from files that are not under \<^verbatim>\<open>src/\<close>, taken as
  parameters: \<^verbatim>\<open>creator.options.applicationID\<close>, \<^verbatim>\<open>creator.allowedMentions\<close>,
  \<^verbatim>\<open>formatAllowedMentions\<close> of \<^verbatim>\<open>./util\<close> (it may throw) and
  \<^verbatim>\<open>InteractionResponseFlags.EPHEMERAL\<close> of \<^verbatim>\<open>./constants\<close>.
\<close>

record ('am, 'fam) Deps =
  applicationID :: string
  creator_allowedMentions :: 'fam
  formatAllowedMentions :: "'am \<Rightarrow> 'fam \<Rightarrow> error + 'fam"
  EPHEMERAL :: number

datatype InterationResponseType =
  ACKNOWLEDGE | CHANNEL_MESSAGE | CHANNEL_MESSAGE_WITH_SOURCE | ACKNOWLEDGE_WITH_SOURCE

datatype endpoint =
  FOLLOWUP_MESSAGE string string
| MESSAGE string string "string option"

text \<open>
  \<^verbatim>\<open>options.content\<close> holds a string or, after line 105 with an options object as first
  argument, that object itself.
\<close>

datatype content_val = ContentString string | ContentOptions

record ('am, 'e) EditMessageOptions =
  content :: "content_val option"
  embeds :: "'e list option"
  allowedMentions :: "'am option"

record ('am, 'e) MessageOptions = "('am, 'e) EditMessageOptions" +
  tts :: "bool option"
  flags :: "number option"
  ephemeral :: "bool option"
  includeSource :: "bool option"

definition no_edit_options :: "('am, 'e) EditMessageOptions" where
  "no_edit_options = \<lparr>content = None, embeds = None, allowedMentions = None\<rparr>"

definition no_options :: "('am, 'e) MessageOptions" where
  "no_options = \<lparr>content = None, embeds = None, allowedMentions = None,
     tts = None, flags = None, ephemeral = None, includeSource = None\<rparr>"

text \<open>
  The first argument of \<^verbatim>\<open>send\<close> and \<^verbatim>\<open>edit\<close>: a string, an options object,
  \<^verbatim>\<open>null\<close>, or a value whose \<^verbatim>\<open>typeof\<close> is neither \<^verbatim>\<open>'string'\<close> nor \<^verbatim>\<open>'object'\<close>
  (\<^verbatim>\<open>undefined\<close> among them). The second argument: an options object, \<^verbatim>\<open>null\<close>, or a
  value whose \<^verbatim>\<open>typeof\<close> is not \<^verbatim>\<open>'object'\<close> (\<^verbatim>\<open>undefined\<close> when it is left out).
\<close>

datatype 'o content_arg = StringArg string | ObjectArg 'o | NullArg | OtherArg

datatype 'o options_arg = OptionsObject 'o | OptionsNull | NotObject

fun truthy_content :: "content_val option \<Rightarrow> bool" where
  "truthy_content None = False"
| "truthy_content (Some (ContentString s)) = (s \<noteq> [])"
| "truthy_content (Some ContentOptions) = True"

fun truthy_flags :: "number option \<Rightarrow> bool" where
  "truthy_flags None = False"
| "truthy_flags (Some n) = truthy_number n"

record InteractionRequestData =
  req_token :: string
  req_id :: string
  req_channel_id :: string
  req_guild_id :: string
  req_data_name :: string
  req_data_id :: string
  req_data_options :: "CommandOption list option"

record CommandContext =
  interactionToken :: string
  interactionID :: string
  channelID :: string
  guildID :: string
  commandName :: string
  commandID :: string
  options :: "ConvertedOption option"
  invokedAt :: int
  initiallyResponded :: bool

text \<open>The constructor (lines 67-81); \<open>now\<close> is \<^verbatim>\<open>Date.now()\<close> when the context is created.\<close>

definition new_CommandContext :: "InteractionRequestData \<Rightarrow> int \<Rightarrow> CommandContext" where
  "new_CommandContext data now =
     \<lparr>interactionToken = req_token data,
      interactionID = req_id data,
      channelID = req_channel_id data,
      guildID = req_guild_id data,
      commandName = req_data_name data,
      commandID = req_data_id data,
      options = map_option convertOptions (req_data_options data),
      invokedAt = now,
      initiallyResponded = False\<rparr>"

text \<open>The getter \<^verbatim>\<open>expired\<close> (line 85); \<open>now\<close> is \<^verbatim>\<open>Date.now()\<close> when it is read.\<close>

definition expired :: "CommandContext \<Rightarrow> int \<Rightarrow> bool" where
  "expired c now = (invokedAt c + 1000 * 60 * 15 < now)"

text \<open>The payload of a response or request; a field the call leaves out is \<open>None\<close>.\<close>

record ('fam, 'e) message_body =
  body_tts :: "bool option"
  body_content :: "content_val option"
  body_embeds :: "'e list option"
  body_flags :: "number option"
  body_allowed_mentions :: 'fam

text \<open>
  The two external calls: \<^verbatim>\<open>this._respond\<close> (status, type, data) and
  \<^verbatim>\<open>this.creator.requestHandler.request\<close> (method, endpoint, auth, body).
\<close>

datatype ('fam, 'e) effect =
  Respond int InterationResponseType "('fam, 'e) message_body option"
| Request string endpoint "bool option" "('fam, 'e) message_body option"


text \<open>
  What a method resolves to: a boolean, \<^verbatim>\<open>new Message(data, this)\<close>, or the request's
  data as it is (\<^verbatim>\<open>delete\<close>).
\<close>

datatype 'd result = RBool bool | RMessage 'd | RData 'd

text \<open>How an awaited external call settles.\<close>

datatype 'd settled = Fulfilled 'd | Rejected error

text \<open>
  The methods are \<^verbatim>\<open>async\<close>: the body runs synchronously up to its \<^verbatim>\<open>await\<close>, where
  the external call has been made, and the rest runs when that call settles. \<open>started\<close>
  is the outcome of the synchronous part: an exception, the boolean \<^verbatim>\<open>acknowledge\<close>
  returns with no \<^verbatim>\<open>await\<close>, or the external call made together with the continuation
  that waits for it.
\<close>

datatype cont = SendInitial | SendFollowup | EditDone | DeleteDone | AcknowledgeDone

datatype ('fam, 'e) started =
  Throw error
| Return bool
| Await "('fam, 'e) effect" cont

text \<open>
  Lines 100-105 of \<^verbatim>\<open>send\<close> and 158-163 of \<^verbatim>\<open>edit\<close>, up to the first read of
  \<^verbatim>\<open>options.content\<close>: the options object the method goes on with, paired with the first
  argument as line 105 would store it; or what the method throws. \<^verbatim>\<open>typeof null\<close> is
  \<^verbatim>\<open>'object'\<close>, so a \<^verbatim>\<open>null\<close> passes both tests and \<^verbatim>\<open>options.content\<close> throws a
  \<^verbatim>\<open>TypeError\<close>. \<open>blank\<close> is \<^verbatim>\<open>{}\<close>.
\<close>

fun given_options :: "'o \<Rightarrow> 'o content_arg \<Rightarrow> 'o options_arg \<Rightarrow> error + ('o \<times> content_val)" where
  "given_options blank (StringArg s) (OptionsObject opts) = Inr (opts, ContentString s)"
| "given_options blank (StringArg s) OptionsNull = Inl TypeError"
| "given_options blank (StringArg s) NotObject = Inr (blank, ContentString s)"
| "given_options blank (ObjectArg opts) b = Inr (opts, ContentOptions)"
| "given_options blank NullArg b = Inl TypeError"
| "given_options blank OtherArg b = Inl (Error ''Message options is not an object.'')"

subsection \<open>The methods\<close>

text \<open>\<^verbatim>\<open>send\<close> up to its \<^verbatim>\<open>await\<close> (lines 98-144).\<close>

definition send_begin ::
  "('am, 'fam) Deps \<Rightarrow> CommandContext \<Rightarrow> int \<Rightarrow> ('am, 'e) MessageOptions content_arg \<Rightarrow>
   ('am, 'e) MessageOptions options_arg \<Rightarrow> ('fam, 'e) started"
where
  "send_begin deps c now content_arg options_arg =
     (if expired c now then Throw (Error ''This interaction has expired'')
      else
        case given_options no_options content_arg options_arg of
          Inl e \<Rightarrow> Throw e
        | Inr given \<Rightarrow>
            let options0 = fst given;
                options1 =
              (if \<not> truthy_content (content options0) then options0\<lparr>content := Some (snd given)\<rparr>
               else options0)
            in
            if \<not> truthy_content (content options1) \<and> embeds options1 = None
            then Throw (Error ''Message content and embeds are both not given.'')
            else
              let options2 =
                (if ephemeral options1 = Some True \<and> \<not> truthy_flags (flags options1)
                 then options1\<lparr>flags := Some (EPHEMERAL deps)\<rparr>
                 else options1)
              in
              case (case allowedMentions options2 of
                      Some m \<Rightarrow> formatAllowedMentions deps m (creator_allowedMentions deps)
                    | None \<Rightarrow> Inr (creator_allowedMentions deps)) of
                Inl e \<Rightarrow> Throw e
              | Inr mentions \<Rightarrow>
                  if \<not> initiallyResponded c then
                    Await
                      (Respond 200
                        (if includeSource options2 = Some True then CHANNEL_MESSAGE_WITH_SOURCE
                         else CHANNEL_MESSAGE)
                        (Some \<lparr>body_tts = tts options2, body_content = content options2,
                               body_embeds = embeds options2, body_flags = flags options2,
                               body_allowed_mentions = mentions\<rparr>))
                      SendInitial
                  else
                    Await
                      (Request ''POST''
                        (FOLLOWUP_MESSAGE (applicationID deps) (interactionToken c))
                        (Some True)
                        (Some \<lparr>body_tts = tts options2, body_content = content options2,
                               body_embeds = embeds options2, body_flags = None,
                               body_allowed_mentions = mentions\<rparr>))
                      SendFollowup)"

text \<open>\<^verbatim>\<open>edit\<close> up to its \<^verbatim>\<open>await\<close> (lines 156-181).\<close>

definition edit_begin ::
  "('am, 'fam) Deps \<Rightarrow> CommandContext \<Rightarrow> int \<Rightarrow> string \<Rightarrow>
   ('am, 'e) EditMessageOptions content_arg \<Rightarrow> ('am, 'e) EditMessageOptions options_arg \<Rightarrow>
   ('fam, 'e) started"
where
  "edit_begin deps c now messageID content_arg options_arg =
     (if expired c now then Throw (Error ''This interaction has expired'')
      else
        case given_options no_edit_options content_arg options_arg of
          Inl e \<Rightarrow> Throw e
        | Inr given \<Rightarrow>
            let options0 = fst given;
                options1 =
              (if \<not> truthy_content (content options0) then options0\<lparr>content := Some (snd given)\<rparr>
               else options0)
            in
            if \<not> truthy_content (content options1) \<and> embeds options1 = None
               \<and> allowedMentions options1 = None
            then Throw (Error ''No valid options were given.'')
            else
              case (case allowedMentions options1 of
                      Some m \<Rightarrow> formatAllowedMentions deps m (creator_allowedMentions deps)
                    | None \<Rightarrow> Inr (creator_allowedMentions deps)) of
                Inl e \<Rightarrow> Throw e
              | Inr mentions \<Rightarrow>
                  Await
                    (Request ''PUT''
                      (MESSAGE (applicationID deps) (interactionToken c) (Some messageID))
                      (Some True)
                      (Some \<lparr>body_tts = None, body_content = content options1,
                             body_embeds = embeds options1, body_flags = None,
                             body_allowed_mentions = mentions\<rparr>))
                    EditDone)"

text \<open>\<^verbatim>\<open>editOriginal\<close> (line 191).\<close>

definition editOriginal_begin ::
  "('am, 'fam) Deps \<Rightarrow> CommandContext \<Rightarrow> int \<Rightarrow>
   ('am, 'e) EditMessageOptions content_arg \<Rightarrow> ('am, 'e) EditMessageOptions options_arg \<Rightarrow>
   ('fam, 'e) started"
where
  "editOriginal_begin deps c now content_arg options_arg =
     edit_begin deps c now ''@original'' content_arg options_arg"

text \<open>\<^verbatim>\<open>delete\<close> up to the request it returns (lines 199-204).\<close>

definition delete_begin ::
  "('am, 'fam) Deps \<Rightarrow> CommandContext \<Rightarrow> int \<Rightarrow> string option \<Rightarrow> ('fam, 'e) started"
where
  "delete_begin deps c now messageID =
     (if expired c now then Throw (Error ''This interaction has expired'')
      else
        Await
          (Request ''DELETE'' (MESSAGE (applicationID deps) (interactionToken c) messageID)
            None None)
          DeleteDone)"

text \<open>\<^verbatim>\<open>acknowledge\<close> up to its \<^verbatim>\<open>await\<close>, or to \<^verbatim>\<open>return false\<close> (lines 213-224).\<close>

definition acknowledge_begin :: "CommandContext \<Rightarrow> bool \<Rightarrow> ('fam, 'e) started" where
  "acknowledge_begin c includeSource_arg =
     (if \<not> initiallyResponded c then
        Await
          (Respond 200 (if includeSource_arg then ACKNOWLEDGE_WITH_SOURCE else ACKNOWLEDGE) None)
          AcknowledgeDone
      else Return False)"

text \<open>
  The rest of a method, run when the awaited call settles: a rejection is thrown on, a
  fulfilled \<^verbatim>\<open>_respond\<close> is followed by \<^verbatim>\<open>this.initiallyResponded = true; return true\<close>
  (lines 131-132 and 220-221), a fulfilled request by the value built from its data.
\<close>

fun resume :: "CommandContext \<Rightarrow> cont \<Rightarrow> 'd settled \<Rightarrow> CommandContext \<times> (error + 'd result)" where
  "resume c k (Rejected e) = (c, Inl e)"
| "resume c SendInitial (Fulfilled d) = (c\<lparr>initiallyResponded := True\<rparr>, Inr (RBool True))"
| "resume c SendFollowup (Fulfilled d) = (c, Inr (RMessage d))"
| "resume c EditDone (Fulfilled d) = (c, Inr (RMessage d))"
| "resume c DeleteDone (Fulfilled d) = (c, Inr (RData d))"
| "resume c AcknowledgeDone (Fulfilled d) = (c\<lparr>initiallyResponded := True\<rparr>, Inr (RBool True))"

subsection \<open>Executions\<close>

datatype ('am, 'e) call =
  Send "('am, 'e) MessageOptions content_arg" "('am, 'e) MessageOptions options_arg"
| Edit string "('am, 'e) EditMessageOptions content_arg" "('am, 'e) EditMessageOptions options_arg"
| EditOriginal "('am, 'e) EditMessageOptions content_arg"
    "('am, 'e) EditMessageOptions options_arg"
| Delete "string option"
| Acknowledge bool

fun begin_call ::
  "('am, 'fam) Deps \<Rightarrow> CommandContext \<Rightarrow> int \<Rightarrow> ('am, 'e) call \<Rightarrow> ('fam, 'e) started"
where
  "begin_call deps c now (Send a b) = send_begin deps c now a b"
| "begin_call deps c now (Edit m a b) = edit_begin deps c now m a b"
| "begin_call deps c now (EditOriginal a b) = editOriginal_begin deps c now a b"
| "begin_call deps c now (Delete m) = delete_begin deps c now m"
| "begin_call deps c now (Acknowledge i) = acknowledge_begin c i"

text \<open>
  A call that is awaited before anything else touches the context: the synchronous part,
  then the continuation with the way the external call settled. The result is the
  context afterwards, the external calls made, and what the method resolved to.
\<close>

definition perform ::
  "('am, 'fam) Deps \<Rightarrow> CommandContext \<Rightarrow> int \<Rightarrow> ('am, 'e) call \<Rightarrow> 'd settled \<Rightarrow>
   CommandContext \<times> ('fam, 'e) effect list \<times> (error + 'd result)"
where
  "perform deps c now cl st =
     (case begin_call deps c now cl of
        Throw e \<Rightarrow> (c, [], Inl e)
      | Return r \<Rightarrow> (c, [], Inr (RBool r))
      | Await eff k \<Rightarrow> (fst (resume c k st), [eff], snd (resume c k st)))"

text \<open>
  Calls may also overlap: a method that is waiting at its \<^verbatim>\<open>await\<close> lets other calls
  on the same context run. An execution is a list of events, a call starting at a time
  or the \<open>i\<close>-th waiting call's external call settling. The state keeps the context, the
  external calls made so far, the waiting continuations and the settled results.
\<close>

record ('fam, 'e, 'd) exec =
  ctx :: CommandContext
  made :: "('fam, 'e) effect list"
  waiting :: "cont list"
  settled_results :: "(error + 'd result) list"

datatype ('am, 'e, 'd) event =
  Call "('am, 'e) call" int
| Settle nat "'d settled"


fun step ::
  "('am, 'fam) Deps \<Rightarrow> ('fam, 'e, 'd) exec \<Rightarrow> ('am, 'e, 'd) event \<Rightarrow> ('fam, 'e, 'd) exec"
where
  "step deps s (Call cl now) =
     (case begin_call deps (ctx s) now cl of
        Throw e \<Rightarrow> s\<lparr>settled_results := settled_results s @ [Inl e]\<rparr>
      | Return r \<Rightarrow> s\<lparr>settled_results := settled_results s @ [Inr (RBool r)]\<rparr>
      | Await eff k \<Rightarrow> s\<lparr>made := made s @ [eff], waiting := waiting s @ [k]\<rparr>)"
| "step deps s (Settle i st) =
     (if i < length (waiting s) then
        s\<lparr>ctx := fst (resume (ctx s) (waiting s ! i) st),
          waiting := take i (waiting s) @ drop (Suc i) (waiting s),
          settled_results := settled_results s @ [snd (resume (ctx s) (waiting s ! i) st)]\<rparr>
      else s)"




subsection \<open>Concrete inputs\<close>

text \<open>
  An application whose \<^verbatim>\<open>formatAllowedMentions\<close> returns the creator's defaults, and a
  context created at time 0 for a command without options.
\<close>

definition deps0 :: "(unit, unit) Deps" where
  "deps0 = \<lparr>applicationID = ''app'', creator_allowedMentions = (),
     formatAllowedMentions = (\<lambda>m f. Inr f), EPHEMERAL = Finite 64 0\<rparr>"

definition ctx0 :: CommandContext where
  "ctx0 = new_CommandContext
     \<lparr>req_token = ''tok'', req_id = ''1'', req_channel_id = ''2'', req_guild_id = ''3'',
      req_data_name = ''ping'', req_data_id = ''4'', req_data_options = None\<rparr> 0"





text \<open>
  Options with distinct names (a truthy string, a zero, a sub-command with one truthy
  option), two options that share a name, an option that has both a truthy value and a
  list of sub-options, and an option named \<^verbatim>\<open>__proto__\<close> with a truthy value.
\<close>

definition distinct_options :: "CommandOption list" where
  "distinct_options =
     [CommandOption ''a'' (Some (PString ''x'')) None,
      CommandOption ''b'' (Some (PNumber (Finite 0 0))) None,
      CommandOption ''c'' None (Some [CommandOption ''d'' (Some (PBoolean True)) None])]"

definition repeated_options :: "CommandOption list" where
  "repeated_options =
     [CommandOption ''a'' (Some (PString ''x'')) None,
      CommandOption ''a'' (Some (PString ''y'')) None]"

definition both_fields :: "CommandOption list" where
  "both_fields = [CommandOption ''a'' (Some (PString ''x'')) (Some [])]"

definition proto_named :: "CommandOption list" where
  "proto_named = [CommandOption ''__proto__'' (Some (PString ''x'')) None]"

text \<open>
  An option named \<^verbatim>\<open>__proto__\<close> with a sub-option, between two ordinary options.
\<close>

definition proto_with_options :: "CommandOption list" where
  "proto_with_options =
     [CommandOption ''a'' (Some (PString ''x'')) None,
      CommandOption ''__proto__'' None (Some [CommandOption ''d'' (Some (PBoolean True)) None]),
      CommandOption ''b'' (Some (PBoolean False)) None]"

section \<open>The rate-limit dispatcher of the specification\<close>

text \<open>
  The dispatcher's code (\<^verbatim>\<open>util/requestHandler\<close> and \<^verbatim>\<open>util/sequentialBucket\<close>, which the
  index file exports) is not among the source files. The definitions of this section are
  written from the specification's sections 3 and 4 and follow one bucket: its queue, its
  quota fields and its processing flag, with the scheduling loop visiting at arbitrary
  times. Pauses, back-off delays, the global limiter, deadlines and the merge of two
  buckets at a remap are left out.
\<close>

text \<open>
  Modelled from the spec: the Request of section 3, whose code is missing. \<open>payload\<close>
  stands for method, route and body; the completion handle is named by \<open>seq\<close>, the
  unique sequence number.
\<close>

record 'p Request =
  payload :: 'p
  seq :: nat
  attempt :: nat
  deadline :: "int option"




















subsection \<open>Concrete inputs for the dispatcher\<close>





section \<open>Properties of CommandContext\<close>

subsection \<open>convertOptions\<close>

lemma last_where_Nil: "last_where P [] = None"
  by (simp add: last_where_def)

lemma last_where_Cons:
  "last_where P (x # xs) =
     (case last_where P xs of Some y \<Rightarrow> Some y | None \<Rightarrow> if P x then Some x else None)"
  by (auto simp: last_where_def split: list.splits)

lemma last_where_none: "(\<And>x. x \<in> set xs \<Longrightarrow> \<not> P x) \<Longrightarrow> last_where P xs = None"
  by (simp add: last_where_def filter_empty_conv split: list.splits)

lemma loop_step:
  "convertOptions_loop (opt # rest) proto props =
     (if effective opt then
        (if opt_name opt = ''__proto__''
         then convertOptions_loop rest
                (if opt_options opt \<noteq> None then Some (entry opt) else proto) props
         else convertOptions_loop rest proto (props(opt_name opt \<mapsto> entry opt)))
      else convertOptions_loop rest proto props)"
  by (cases opt rule: effective.cases) (simp_all add: convertOptions_def)

lemma own_props_loop_proto:
  "own_props (convertOptions_loop opts proto props) ''__proto__'' = props ''__proto__''"
proof (induction opts arbitrary: proto props)
  case Nil
  show ?case by simp
next
  case (Cons opt rest)
  show ?case
    unfolding loop_step by (simp add: Cons.IH)
qed

lemma own_props_loop:
  assumes "k \<noteq> ''__proto__''"
  shows "own_props (convertOptions_loop opts proto props) k =
     (case last_effective opts k of Some opt \<Rightarrow> Some (entry opt) | None \<Rightarrow> props k)"
proof (induction opts arbitrary: proto props)
  case Nil
  show ?case by (simp add: last_effective_def last_where_Nil)
next
  case (Cons opt rest)
  show ?case
    unfolding loop_step
    using assms
    by (simp add: Cons.IH last_effective_def last_where_Cons split: option.splits)
qed

lemma prototype_loop:
  "prototype (convertOptions_loop opts proto props) =
     (case last_prototype opts of Some opt \<Rightarrow> Some (entry opt) | None \<Rightarrow> proto)"
proof (induction opts arbitrary: proto props)
  case Nil
  show ?case by (simp add: last_prototype_def last_where_Nil)
next
  case (Cons opt rest)
  have e: "opt_options opt \<noteq> None \<Longrightarrow> effective opt"
    by (cases opt rule: effective.cases) simp_all
  show ?case
    unfolding loop_step
    using e by (auto simp add: Cons.IH last_prototype_def last_where_Cons split: option.splits)
qed

lemma last_effective_distinct:
  assumes "distinct (map opt_name opts)" "opt \<in> set opts"
  shows "last_effective opts (opt_name opt) = (if effective opt then Some opt else None)"
  using assms
proof (induction opts)
  case Nil
  then show ?case by simp
next
  case (Cons x xs)
  have "opt_name x \<notin> opt_name ` set xs"
    using Cons.prems(1) by simp
  then have "\<And>y. y \<in> set xs \<Longrightarrow> \<not> (opt_name y = opt_name x \<and> effective y)"
    by (metis imageI)
  then have none: "last_effective xs (opt_name x) = None"
    unfolding last_effective_def by (rule last_where_none)
  show ?case
  proof (cases "opt = x")
    case True
    then show ?thesis
      using none by (simp add: last_effective_def last_where_Cons)
  next
    case False
    then have "opt \<in> set xs" "opt_name x \<noteq> opt_name opt" using Cons.prems by auto
    then show ?thesis
      using Cons by (auto simp add: last_effective_def last_where_Cons split: option.splits)
  qed
qed

lemma effective_iff:
  "effective opt \<longleftrightarrow> opt_options opt \<noteq> None \<or> (\<exists>v. opt_value opt = Some v \<and> truthy v)"
  by (cases opt rule: effective.cases) simp_all

lemma truthy_iff:
  "truthy v \<longleftrightarrow>
     v \<noteq> PString [] \<and> (\<forall>e. v \<noteq> PNumber (Finite 0 e)) \<and> v \<noteq> PNumber NaN \<and> v \<noteq> PBoolean False"
proof (cases v)
  case (PNumber n)
  then show ?thesis by (cases n) auto
qed simp_all

text \<open>
  C10, as amended. For every list of options: under every name other than \<^verbatim>\<open>__proto__\<close>
  the returned record has as own entry what the last option of that name assigns that has
  sub-options (the recursive conversion of those sub-options) or, having none, a truthy
  value (that value), and no own entry when no option of that name is of either kind. It
  never has an own entry named \<^verbatim>\<open>__proto__\<close>: an option of that name with sub-options
  makes their conversion the record's prototype (the last such option decides), and one
  with a primitive value changes nothing. The falsy values are the empty string, zero,
  \<^verbatim>\<open>NaN\<close> and \<^verbatim>\<open>false\<close>. So when the names are pairwise distinct, for each option
  not named \<^verbatim>\<open>__proto__\<close>: with sub-options it is mapped to their recursive conversion,
  without sub-options and with a truthy value it is mapped to that value, and without
  sub-options and with a falsy or missing value it has no entry in the record.
\<close>

theorem convertOptions_entries:
  "(k \<noteq> ''__proto__'' \<longrightarrow>
      own_props (convertOptions opts) k = map_option entry (last_effective opts k))
   \<and> own_props (convertOptions opts) ''__proto__'' = None
   \<and> prototype (convertOptions opts) = map_option entry (last_prototype opts)
   \<and> (effective opt \<longleftrightarrow>
        opt_options opt \<noteq> None \<or> (\<exists>v. opt_value opt = Some v \<and> truthy v))
   \<and> entry (CommandOption n w (Some subs)) = convertOptions subs
   \<and> entry (CommandOption n (Some v) None) = converted v
   \<and> (truthy v \<longleftrightarrow>
        v \<noteq> PString [] \<and> (\<forall>e. v \<noteq> PNumber (Finite 0 e)) \<and> v \<noteq> PNumber NaN \<and> v \<noteq> PBoolean False)
   \<and> converted (PString s) = CString s
   \<and> converted (PNumber x) = CNumber x
   \<and> converted (PBoolean b) = CBoolean b
   \<and> (distinct (map opt_name opts) \<longrightarrow>
        (\<forall>opt \<in> set opts. opt_name opt \<noteq> ''__proto__'' \<longrightarrow>
           (\<forall>subs. opt_options opt = Some subs \<longrightarrow>
              own_props (convertOptions opts) (opt_name opt) = Some (convertOptions subs))
         \<and> (\<forall>v. opt_options opt = None \<and> opt_value opt = Some v \<and> truthy v \<longrightarrow>
              own_props (convertOptions opts) (opt_name opt) = Some (converted v))
         \<and> (opt_options opt = None \<and> (\<forall>v. opt_value opt = Some v \<longrightarrow> \<not> truthy v) \<longrightarrow>
              own_props (convertOptions opts) (opt_name opt) = None)))"
proof -
  have own: "\<And>k. k \<noteq> ''__proto__'' \<Longrightarrow>
      own_props (convertOptions opts) k = map_option entry (last_effective opts k)"
    by (simp add: convertOptions_def own_props_loop split: option.splits)
  have 2: "own_props (convertOptions opts) ''__proto__'' = None"
    by (simp add: convertOptions_def own_props_loop_proto)
  have 3: "prototype (convertOptions opts) = map_option entry (last_prototype opts)"
    by (simp add: convertOptions_def prototype_loop split: option.splits)
  have 4: "effective opt \<longleftrightarrow>
        opt_options opt \<noteq> None \<or> (\<exists>v. opt_value opt = Some v \<and> truthy v)"
    by (rule effective_iff)
  have 5: "entry (CommandOption n w (Some subs)) = convertOptions subs"
    and 6: "entry (CommandOption n (Some v) None) = converted v"
    and 8: "converted (PString s) = CString s"
    and 9: "converted (PNumber x) = CNumber x"
    and 10: "converted (PBoolean b) = CBoolean b"
    by simp_all
  have 7: "truthy v \<longleftrightarrow>
        v \<noteq> PString [] \<and> (\<forall>e. v \<noteq> PNumber (Finite 0 e)) \<and> v \<noteq> PNumber NaN \<and> v \<noteq> PBoolean False"
    by (rule truthy_iff)
  have 11: "distinct (map opt_name opts) \<longrightarrow>
        (\<forall>opt \<in> set opts. opt_name opt \<noteq> ''__proto__'' \<longrightarrow>
           (\<forall>subs. opt_options opt = Some subs \<longrightarrow>
              own_props (convertOptions opts) (opt_name opt) = Some (convertOptions subs))
         \<and> (\<forall>v. opt_options opt = None \<and> opt_value opt = Some v \<and> truthy v \<longrightarrow>
              own_props (convertOptions opts) (opt_name opt) = Some (converted v))
         \<and> (opt_options opt = None \<and> (\<forall>v. opt_value opt = Some v \<longrightarrow> \<not> truthy v) \<longrightarrow>
              own_props (convertOptions opts) (opt_name opt) = None))"
  proof (intro impI ballI)
    fix o'
    assume d: "distinct (map opt_name opts)" and m: "o' \<in> set opts"
      and p: "opt_name o' \<noteq> ''__proto__''"
    have l: "own_props (convertOptions opts) (opt_name o')
        = (if effective o' then Some (entry o') else None)"
      by (simp add: own [OF p] last_effective_distinct [OF d m])
    show "(\<forall>subs. opt_options o' = Some subs \<longrightarrow>
              own_props (convertOptions opts) (opt_name o') = Some (convertOptions subs))
         \<and> (\<forall>v. opt_options o' = None \<and> opt_value o' = Some v \<and> truthy v \<longrightarrow>
              own_props (convertOptions opts) (opt_name o') = Some (converted v))
         \<and> (opt_options o' = None \<and> (\<forall>v. opt_value o' = Some v \<longrightarrow> \<not> truthy v) \<longrightarrow>
              own_props (convertOptions opts) (opt_name o') = None)"
      unfolding l by (cases o' rule: effective.cases) simp_all
  qed
  from own [of k] 2 3 4 5 6 7 8 9 10 11 show ?thesis by blast
qed

text \<open>
  The theorem at three options with distinct names (the truthy string is kept, the zero is
  left out, the sub-command is converted recursively) and at a list with an option named
  \<^verbatim>\<open>__proto__\<close> that has a sub-option.
\<close>

theorem convertOptions_entries_witness:
  "distinct (map opt_name distinct_options)
   \<and> own_props (convertOptions distinct_options) ''a'' = Some (CString ''x'')
   \<and> own_props (convertOptions distinct_options) ''b'' = None
   \<and> own_props (convertOptions distinct_options) ''c''
       = Some (convertOptions [CommandOption ''d'' (Some (PBoolean True)) None])
   \<and> own_props (convertOptions [CommandOption ''d'' (Some (PBoolean True)) None]) ''d''
       = Some (CBoolean True)
   \<and> own_props (convertOptions proto_with_options) ''a'' = Some (CString ''x'')
   \<and> own_props (convertOptions proto_with_options) ''__proto__'' = None
   \<and> prototype (convertOptions proto_with_options)
       = Some (convertOptions [CommandOption ''d'' (Some (PBoolean True)) None])"
proof -
  let ?sub = "[CommandOption ''d'' (Some (PBoolean True)) None]"
  have d: "distinct (map opt_name distinct_options)"
    by (simp add: distinct_options_def)
  note t = convertOptions_entries
    [of "''a''" distinct_options "CommandOption ''c'' None (Some ?sub)" "''c''" None ?sub
        "PString ''x''" "''x''" "Finite 0 0" False]
  from t d
  have each: "\<forall>opt \<in> set distinct_options. opt_name opt \<noteq> ''__proto__'' \<longrightarrow>
           (\<forall>subs. opt_options opt = Some subs \<longrightarrow>
              own_props (convertOptions distinct_options) (opt_name opt)
                = Some (convertOptions subs))
         \<and> (\<forall>v. opt_options opt = None \<and> opt_value opt = Some v \<and> truthy v \<longrightarrow>
              own_props (convertOptions distinct_options) (opt_name opt) = Some (converted v))
         \<and> (opt_options opt = None \<and> (\<forall>v. opt_value opt = Some v \<longrightarrow> \<not> truthy v) \<longrightarrow>
              own_props (convertOptions distinct_options) (opt_name opt) = None)"
    by blast
  have a: "own_props (convertOptions distinct_options) ''a'' = Some (CString ''x'')"
    and b: "own_props (convertOptions distinct_options) ''b'' = None"
    and c: "own_props (convertOptions distinct_options) ''c'' = Some (convertOptions ?sub)"
    using each by (simp_all add: distinct_options_def)
  note u = convertOptions_entries
    [of "''d''" ?sub "CommandOption ''d'' (Some (PBoolean True)) None" "''d''" None "[]"
        "PBoolean True" "[]" "Finite 0 0" True]
  have le: "last_effective ?sub ''d'' = Some (CommandOption ''d'' (Some (PBoolean True)) None)"
    by (simp add: last_effective_def last_where_def)
  from u le have sub: "own_props (convertOptions ?sub) ''d'' = Some (CBoolean True)"
    by simp
  note v = convertOptions_entries
    [of "''a''" proto_with_options "CommandOption ''a'' (Some (PString ''x'')) None" "''a''" None
        "[]" "PString ''x''" "''x''" "Finite 0 0" True]
  have la: "last_effective proto_with_options ''a''
      = Some (CommandOption ''a'' (Some (PString ''x'')) None)"
    and lp: "last_prototype proto_with_options = Some (CommandOption ''__proto__'' None (Some ?sub))"
    by (simp_all add: proto_with_options_def last_effective_def last_prototype_def last_where_def)
  from v la lp have pa: "own_props (convertOptions proto_with_options) ''a'' = Some (CString ''x'')"
    and pp: "own_props (convertOptions proto_with_options) ''__proto__'' = None"
    and pr: "prototype (convertOptions proto_with_options) = Some (convertOptions ?sub)"
    by simp_all
  from d a b c sub pa pp pr show ?thesis by blast
qed

text \<open>
  The claim as stated fails in three ways. When a name repeats, the first option has a
  truthy value and no sub-options, and the record does not map its name to that value,
  since the second option has overwritten it. An option that has a truthy value and
  sub-options is converted from the sub-options, since \<^verbatim>\<open>options\<close> is tested first. An
  option named \<^verbatim>\<open>__proto__\<close> with a truthy value is not mapped at all: the record stays
  empty.
\<close>

theorem convertOptions_repeated_name:
  "CommandOption ''a'' (Some (PString ''x'')) None \<in> set repeated_options
   \<and> truthy (PString ''x'')
   \<and> own_props (convertOptions repeated_options) ''a'' \<noteq> Some (converted (PString ''x''))
   \<and> own_props (convertOptions repeated_options) ''a'' = Some (CString ''y'')
   \<and> CommandOption ''a'' (Some (PString ''x'')) (Some []) \<in> set both_fields
   \<and> own_props (convertOptions both_fields) ''a'' \<noteq> Some (converted (PString ''x''))
   \<and> own_props (convertOptions both_fields) ''a'' = Some (CObject None Map.empty)
   \<and> CommandOption ''__proto__'' (Some (PString ''x'')) None \<in> set proto_named
   \<and> own_props (convertOptions proto_named) ''__proto__'' \<noteq> Some (converted (PString ''x''))
   \<and> convertOptions proto_named = CObject None Map.empty"
  by (simp add: repeated_options_def both_fields_def proto_named_def convertOptions_def)

subsection \<open>The synchronous part of each method\<close>







lemma expired_begins:
  assumes "expired c now"
  shows "send_begin deps c now a b = Throw (Error ''This interaction has expired'')"
    and "edit_begin deps c now m a' b' = Throw (Error ''This interaction has expired'')"
    and "editOriginal_begin deps c now a' b' = Throw (Error ''This interaction has expired'')"
    and "delete_begin deps c now mid = Throw (Error ''This interaction has expired'')"
  using assms
  by (simp_all add: send_begin_def edit_begin_def editOriginal_begin_def delete_begin_def)

subsection \<open>Expiry\<close>

text \<open>
  C8. When more than 15 minutes (in milliseconds) lie between \<^verbatim>\<open>invokedAt\<close> and the time
  of the call, \<^verbatim>\<open>expired\<close> is true and \<^verbatim>\<open>send\<close>, \<^verbatim>\<open>edit\<close> and \<^verbatim>\<open>delete\<close> throw
  \<^verbatim>\<open>Error('This interaction has expired')\<close>: the awaited call makes no external call and
  leaves the context as it was, and within any execution the call adds nothing but that
  error to the state, so no response and no request is issued.
\<close>

theorem expired_methods_throw:
  fixes deps :: "('am, 'fam) Deps"
    and a :: "('am, 'e) MessageOptions content_arg"
    and a' :: "('am, 'e) EditMessageOptions content_arg"
    and st :: "'d settled"
  assumes "15 * 60 * 1000 < now - invokedAt c"
  shows "expired c now
    \<and> perform deps c now (Send a b) st = (c, [], Inl (Error ''This interaction has expired''))
    \<and> perform deps c now (Edit m a' b') st = (c, [], Inl (Error ''This interaction has expired''))
    \<and> perform deps c now (Delete mid :: ('am, 'e) call) st
         = (c, [], Inl (Error ''This interaction has expired''))
    \<and> (\<forall>s :: ('fam, 'e, 'd) exec. ctx s = c \<longrightarrow>
          step deps s (Call (Send a b) now) =
            s\<lparr>settled_results := settled_results s @ [Inl (Error ''This interaction has expired'')]\<rparr>
        \<and> step deps s (Call (Edit m a' b') now) =
            s\<lparr>settled_results := settled_results s @ [Inl (Error ''This interaction has expired'')]\<rparr>
        \<and> step deps s (Call (Delete mid :: ('am, 'e) call) now) =
            s\<lparr>settled_results := settled_results s @ [Inl (Error ''This interaction has expired'')]\<rparr>)"
proof -
  from assms have e: "expired c now" by (simp add: expired_def)
  show ?thesis
    using e by (simp add: perform_def expired_begins)
qed

text \<open>The theorem one millisecond after the 15 minutes, for a context created at time 0.\<close>

theorem expired_methods_throw_witness:
  "15 * 60 * 1000 < 900001 - invokedAt ctx0
   \<and> perform deps0 ctx0 900001 (Send (StringArg ''hi'') NotObject :: (unit, unit) call) (Fulfilled ())
       = (ctx0, [], Inl (Error ''This interaction has expired''))
   \<and> perform deps0 ctx0 900001 (Edit ''7'' (StringArg ''hi'') NotObject :: (unit, unit) call)
        (Fulfilled ())
       = (ctx0, [], Inl (Error ''This interaction has expired''))
   \<and> perform deps0 ctx0 900001 (Delete None :: (unit, unit) call) (Fulfilled ())
       = (ctx0, [], Inl (Error ''This interaction has expired''))"
proof -
  have h: "15 * 60 * 1000 < 900001 - invokedAt ctx0"
    by (simp add: ctx0_def new_CommandContext_def)
  from expired_methods_throw
    [OF h, of deps0 "StringArg ''hi''" NotObject "Fulfilled ()" "''7''" "StringArg ''hi''"
       NotObject None]
  show ?thesis using h by blast
qed

subsection \<open>The initial response\<close>

























section \<open>Properties of the dispatcher\<close>















end
